theory Spec2Isabelle
  imports Complex_Main
begin

section \<open>The Gaussian-mixture task of sbibm\<close>

text \<open>
  A shallow embedding of \<^verbatim>\<open>sbibm/tasks/gaussian_mixture/task.py\<close>.

  Tensor entries are real numbers (the rounding of floating-point arithmetic is not
  modelled; comparisons are exact in both); a tensor of shape \<open>(k,)\<close> is a list, a tensor
  of shape \<open>(m, k)\<close> is the list of its rows. The special values that the control flow of
  the source tests (the infinities and NaN that \<^verbatim>\<open>log_prob\<close> can produce) are values of
  the datatype \<open>fl\<close>. Sizes and counts that the library requires to be non-negative
  (\<^verbatim>\<open>dim\<close>, the \<^verbatim>\<open>num_samples\<close> of the prior) are natural numbers; the
  \<^verbatim>\<open>num_samples\<close> of the reference posterior, which the source only compares, is an
  integer.

  Randomness is explicit: what the source draws through \<^verbatim>\<open>pyro.sample\<close> is an
  argument of the model. A reparameterised distribution turns its noise into the sample
  as the library does (Normal: \<open>loc + eps * scale\<close>; Uniform: \<open>low + rand * (high - low)\<close>
  with \<open>rand\<close> in \<open>[0, 1)\<close>); a Categorical draw is the index itself.
\<close>

subsection \<open>Errors\<close>

datatype error = AssertionError | RuntimeError | ZeroDivisionError | IndexError

subsection \<open>Values of log-probabilities\<close>

datatype fl = Fin real | PInf | NInf | NaN

fun fl_add :: "fl \<Rightarrow> fl \<Rightarrow> fl" where
  "fl_add NaN _ = NaN"
| "fl_add _ NaN = NaN"
| "fl_add PInf NInf = NaN"
| "fl_add NInf PInf = NaN"
| "fl_add PInf _ = PInf"
| "fl_add _ PInf = PInf"
| "fl_add NInf _ = NInf"
| "fl_add _ NInf = NInf"
| "fl_add (Fin a) (Fin b) = Fin (a + b)"

fun fl_neg :: "fl \<Rightarrow> fl" where
  "fl_neg (Fin a) = Fin (- a)"
| "fl_neg PInf = NInf"
| "fl_neg NInf = PInf"
| "fl_neg NaN = NaN"

definition fl_sub :: "fl \<Rightarrow> fl \<Rightarrow> fl" where
  "fl_sub a b = fl_add a (fl_neg b)"

text \<open>\<^verbatim>\<open>torch.log\<close> of a finite number.\<close>

definition torch_log :: "real \<Rightarrow> fl" where
  "torch_log x = (if 0 < x then Fin (ln x) else if x = 0 then NInf else NaN)"

text \<open>\<^verbatim>\<open>Tensor.sum()\<close>: the sum of no entries is \<open>0\<close>.\<close>

definition torch_sum :: "fl list \<Rightarrow> fl" where
  "torch_sum xs = foldr fl_add xs (Fin 0)"

fun torch_isinf :: "fl \<Rightarrow> bool" where
  "torch_isinf PInf = True"
| "torch_isinf NInf = True"
| "torch_isinf _ = False"

subsection \<open>Tensors\<close>

datatype tensor = Scalar real | Vec "real list" | Mat "real list list"

fun ndim :: "tensor \<Rightarrow> nat" where
  "ndim (Scalar _) = 0"
| "ndim (Vec _) = 1"
| "ndim (Mat _) = 2"

text \<open>\<^verbatim>\<open>torch.ones((n,))\<close>.\<close>

definition torch_ones :: "nat \<Rightarrow> real list" where
  "torch_ones n = replicate n 1"

text \<open>
  \<^verbatim>\<open>torch.atleast_2d\<close>, giving the rows of the result: a 0-d tensor becomes \<open>(1, 1)\<close>,
  a 1-d tensor of shape \<open>(d,)\<close> becomes \<open>(1, d)\<close>, a 2-d tensor is returned as it is.
\<close>

fun torch_atleast_2d :: "tensor \<Rightarrow> real list list" where
  "torch_atleast_2d (Scalar x) = [[x]]"
| "torch_atleast_2d (Vec v) = [v]"
| "torch_atleast_2d (Mat rows) = rows"

text \<open>
  \<^verbatim>\<open>torch.cat\<close> of a list of tensors of shape \<open>(1, k)\<close>, each given by its row: the tensor
  of shape \<open>(m, k)\<close> with these rows. The library refuses an empty list.
\<close>

definition torch_cat :: "real list list \<Rightarrow> error + real list list" where
  "torch_cat ts = (if ts = [] then Inl RuntimeError else Inr ts)"

text \<open>
  Broadcasting of two tensors along their last dimension: equal sizes pair up, a size of
  one is repeated, anything else is refused by the library.
\<close>

definition broadcast2 :: "'a list \<Rightarrow> 'b list \<Rightarrow> error + ('a \<times> 'b) list" where
  "broadcast2 xs ys =
     (if length xs = length ys then Inr (zip xs ys)
      else if length xs = 1 then Inr (map (\<lambda>y. (hd xs, y)) ys)
      else if length ys = 1 then Inr (map (\<lambda>x. (x, hd ys)) xs)
      else Inl RuntimeError)"

text \<open>
  \<^verbatim>\<open>element in tensor\<close> for a tensor of shape \<open>(m, k)\<close> and an element of shape \<open>(1, k)\<close>:
  the library computes \<^verbatim>\<open>(element == tensor).any()\<close>, an entrywise comparison of the
  element with every row.
\<close>

definition tensor_contains :: "real list list \<Rightarrow> real list \<Rightarrow> bool" where
  "tensor_contains rows element =
     list_ex (\<lambda>row. list_ex (\<lambda>(a, b). a = b) (zip element row)) rows"

subsection \<open>Distributions\<close>

datatype dist = Categorical "real list" | Normal "real list" real

text \<open>A sample site: the name given to \<^verbatim>\<open>pyro.sample\<close> and the distribution sampled.\<close>

type_synonym site = "string \<times> dist"

text \<open>\<^verbatim>\<open>Normal(loc, scale).rsample()\<close> for \<open>loc\<close> of shape \<open>(1, k)\<close> and a scalar scale.\<close>

fun normal_rsample :: "real list \<Rightarrow> real \<Rightarrow> (nat \<Rightarrow> real) \<Rightarrow> nat \<Rightarrow> real list" where
  "normal_rsample [] scale eps j = []"
| "normal_rsample (l # loc) scale eps j =
     (l + eps j * scale) # normal_rsample loc scale eps (Suc j)"


text \<open>
  \<^verbatim>\<open>Uniform(low, high).log_prob(value)\<close> of one entry:
  \<^verbatim>\<open>lb = low.le(value); ub = high.gt(value); log(lb * ub) - log(high - low)\<close>.
\<close>

definition uniform_log_prob :: "real \<Rightarrow> real \<Rightarrow> real \<Rightarrow> fl" where
  "uniform_log_prob lo hi v =
     (let lb = (if lo \<le> v then 1 else 0 :: real);
          ub = (if hi > v then 1 else 0 :: real)
      in fl_sub (torch_log (lb * ub)) (torch_log (hi - lo)))"

subsection \<open>The task\<close>

record task =
  dim_parameters :: nat
  dim_data :: nat
  prior_low :: "real list"
  prior_high :: "real list"
  mixture_locs_factor :: "real list"
  mixture_scales :: "real list"
  mixture_weights :: "real list"

text \<open>
  \<^verbatim>\<open>GaussianMixture.__init__\<close>; the argument \<^verbatim>\<open>dim\<close> is written \<open>dim'\<close>, as
  \<open>dim\<close> is a constant of the library.
\<close>

definition GaussianMixture :: "nat \<Rightarrow> real \<Rightarrow> task" where
  "GaussianMixture dim' prior_bound =
     \<lparr> dim_parameters = dim',
       dim_data = dim',
       prior_low = map (\<lambda>x. - prior_bound * x) (torch_ones dim'),
       prior_high = map (\<lambda>x. prior_bound * x) (torch_ones dim'),
       mixture_locs_factor = [1, 1],
       mixture_scales = [1, 1 / 10],
       mixture_weights = [1 / 2, 1 / 2] \<rparr>"

text \<open>
  \<^verbatim>\<open>self.prior_dist.log_prob(sample).sum()\<close> for a sample of shape \<open>(1, k)\<close>: the
  entrywise log-probabilities, with the bounds broadcast against the sample, summed.
\<close>

definition prior_log_prob :: "task \<Rightarrow> real list \<Rightarrow> error + fl" where
  "prior_log_prob t sample =
     (case broadcast2 sample (zip (prior_low t) (prior_high t)) of
        Inl e \<Rightarrow> Inl e
      | Inr ps \<Rightarrow> Inr (torch_sum (map (\<lambda>(v, lo, hi). uniform_log_prob lo hi v) ps)))"

subsection \<open>The prior\<close>


subsection \<open>The simulator\<close>

text \<open>
  What one call of the simulator draws: the mixture index of every row and the
  standard-normal noise of every entry.
\<close>

record sim_draw =
  sim_idx :: "nat \<Rightarrow> nat"
  sim_eps :: "nat \<Rightarrow> nat \<Rightarrow> real"

text \<open>
  The rows of the result, for the rows of \<^verbatim>\<open>parameters\<close> from row \<open>i\<close> on: row \<open>i\<close> is a
  sample of the Normal with mean \<^verbatim>\<open>mixture_locs_factor[idx[i]] * parameters[i]\<close> and scale
  \<^verbatim>\<open>mixture_scales[idx[i]]\<close>. An index outside the two vectors is an index error (the
  Categorical never draws one).
\<close>

fun simulator_rows ::
  "task \<Rightarrow> sim_draw \<Rightarrow> nat \<Rightarrow> real list list \<Rightarrow> error + real list list" where
  "simulator_rows t d i [] = Inr []"
| "simulator_rows t d i (row # rows) =
     (let idx = sim_idx d i in
      if idx < length (mixture_locs_factor t) \<and> idx < length (mixture_scales t) then
        (case simulator_rows t d (Suc i) rows of
           Inl e \<Rightarrow> Inl e
         | Inr out \<Rightarrow>
             Inr (normal_rsample (map (\<lambda>p. mixture_locs_factor t ! idx * p) row)
                    (mixture_scales t ! idx) (sim_eps d i) 0 # out))
      else Inl IndexError)"

text \<open>The closure \<^verbatim>\<open>simulator(parameters)\<close> of \<^verbatim>\<open>get_simulator\<close>.\<close>

definition simulator :: "task \<Rightarrow> tensor \<Rightarrow> sim_draw \<Rightarrow> error + tensor" where
  "simulator t parameters d =
     (let parameters = torch_atleast_2d parameters in
      case simulator_rows t d 0 parameters of
        Inl e \<Rightarrow> Inl e
      | Inr out \<Rightarrow> Inr (Mat out))"

subsection \<open>The reference posterior\<close>

text \<open>What one iteration of the rejection loop draws.\<close>

record draw =
  mixture_idx :: nat
  eps :: "nat \<Rightarrow> real"

text \<open>
  The local variables of the loop, and the sample sites visited so far (in the order of
  the calls of \<^verbatim>\<open>pyro.sample\<close>).
\<close>

record loop_state =
  counter :: nat
  reference_posterior_samples :: "real list list"
  sites :: "site list"

definition init_state :: loop_state where
  "init_state = \<lparr> counter = 0, reference_posterior_samples = [], sites = [] \<rparr>"

text \<open>The distribution of the candidate, given the mixture index.\<close>

definition posterior_dist :: "task \<Rightarrow> real list \<Rightarrow> nat \<Rightarrow> dist" where
  "posterior_dist t observation idx =
     Normal (map (\<lambda>x. mixture_locs_factor t ! idx * x) observation) (mixture_scales t ! idx)"

text \<open>
  The candidate of an iteration: the sample of that Normal, made from the noise of the
  draw.
\<close>

definition posterior_sample :: "task \<Rightarrow> real list \<Rightarrow> draw \<Rightarrow> real list" where
  "posterior_sample t observation d =
     normal_rsample (map (\<lambda>x. mixture_locs_factor t ! mixture_idx d * x) observation)
       (mixture_scales t ! mixture_idx d) (eps d) 0"

text \<open>
  The test \<^verbatim>\<open>is_duplicate\<close>: \<^verbatim>\<open>sample in torch.cat(reference_posterior_samples)\<close> when
  there are accepted samples, \<^verbatim>\<open>False\<close> otherwise.
\<close>

definition is_duplicate :: "real list list \<Rightarrow> real list \<Rightarrow> error + bool" where
  "is_duplicate samples sample =
     (if length samples > 0
      then (case torch_cat samples of
              Inl e \<Rightarrow> Inl e
            | Inr c \<Rightarrow> Inr (tensor_contains c sample))
      else Inr False)"

text \<open>The body of the \<^verbatim>\<open>while\<close> loop, for an observation of shape \<open>(1, k)\<close>.\<close>

definition loop_body :: "task \<Rightarrow> real list \<Rightarrow> draw \<Rightarrow> loop_state \<Rightarrow> error + loop_state" where
  "loop_body t observation d s =
     (let counter' = counter s + 1;
          idx = mixture_idx d
      in if idx < length (mixture_locs_factor t) \<and> idx < length (mixture_scales t) then
           (let sample = posterior_sample t observation d in
            case prior_log_prob t sample of
              Inl e \<Rightarrow> Inl e
            | Inr lp \<Rightarrow>
                (case is_duplicate (reference_posterior_samples s) sample of
                   Inl e \<Rightarrow> Inl e
                 | Inr duplicate \<Rightarrow>
                     (let is_outside_prior = torch_isinf lp
                      in Inr \<lparr> counter = counter',
                               reference_posterior_samples =
                                 (if \<not> is_outside_prior \<and> \<not> duplicate
                                  then reference_posterior_samples s @ [sample]
                                  else reference_posterior_samples s),
                               sites = sites s @
                                 [(''mixture_idx'', Categorical (mixture_weights t)),
                                  (''posterior_sample'', posterior_dist t observation idx)] \<rparr>)))
         else Inl IndexError)"

text \<open>
  The \<^verbatim>\<open>while\<close> loop. Every iteration takes one draw; \<open>None\<close> says that the loop is
  still running when the draws supplied are used up.
\<close>

fun rejection_loop ::
  "task \<Rightarrow> int \<Rightarrow> real list \<Rightarrow> draw list \<Rightarrow> loop_state \<Rightarrow> (error + loop_state) option" where
  "rejection_loop t num_samples observation [] s =
     (if int (length (reference_posterior_samples s)) < num_samples then None
      else Some (Inr s))"
| "rejection_loop t num_samples observation (d # ds) s =
     (if int (length (reference_posterior_samples s)) < num_samples then
        (case loop_body t observation d s of
           Inl e \<Rightarrow> Some (Inl e)
         | Inr s' \<Rightarrow> rejection_loop t num_samples observation ds s')
      else Some (Inr s))"

text \<open>
  What a call that returns leaves behind: the tensor returned, the acceptance rate
  written to the log, and the final value of \<open>counter\<close> and the sample sites visited.
\<close>

record run =
  returned :: "real list list"
  acceptance_rate :: real
  attempts :: nat
  visited :: "site list"

text \<open>The two assertions, and the choice of the observation.\<close>

fun resolve_observation ::
  "(int \<Rightarrow> real list) \<Rightarrow> int option \<Rightarrow> real list option \<Rightarrow> error + real list" where
  "resolve_observation get_observation None None = Inl AssertionError"
| "resolve_observation get_observation (Some n) (Some obs) = Inl AssertionError"
| "resolve_observation get_observation (Some n) None = Inr (get_observation n)"
| "resolve_observation get_observation None (Some obs) = Inr obs"

text \<open>The statements after the loop.\<close>

definition finish :: "int \<Rightarrow> loop_state \<Rightarrow> error + run" where
  "finish num_samples s =
     (case torch_cat (reference_posterior_samples s) of
        Inl e \<Rightarrow> Inl e
      | Inr c \<Rightarrow>
          if counter s = 0 then Inl ZeroDivisionError
          else Inr \<lparr> returned = c,
                     acceptance_rate = real_of_int num_samples / real (counter s),
                     attempts = counter s,
                     visited = sites s \<rparr>)"

text \<open>
  \<^verbatim>\<open>_sample_reference_posterior\<close>. \<open>get_observation\<close> is the method of the base class,
  which this file does not define: it is a parameter.
\<close>

definition sample_reference_posterior ::
  "(int \<Rightarrow> real list) \<Rightarrow> task \<Rightarrow> int \<Rightarrow> int option \<Rightarrow> real list option \<Rightarrow> draw list
     \<Rightarrow> (error + run) option" where
  "sample_reference_posterior get_observation t num_samples num_observation observation ds =
     (case resolve_observation get_observation num_observation observation of
        Inl e \<Rightarrow> Some (Inl e)
      | Inr obs \<Rightarrow>
          (case rejection_loop t num_samples obs ds init_state of
             None \<Rightarrow> None
           | Some (Inl e) \<Rightarrow> Some (Inl e)
           | Some (Inr s) \<Rightarrow> Some (finish num_samples s)))"

subsection \<open>An example of draws\<close>

text \<open>
  A draw of the rejection loop that picks the first mixture component, with noise \<open>a\<close>
  for the first coordinate and \<open>b\<close> for the others.
\<close>

definition example_draw :: "real \<Rightarrow> real \<Rightarrow> draw" where
  "example_draw a b = \<lparr> mixture_idx = 0, eps = (\<lambda>j. if j = 0 then a else b) \<rparr>"

text \<open>The same, picking the second mixture component.\<close>

definition example_draw_second :: "real \<Rightarrow> real \<Rightarrow> draw" where
  "example_draw_second a b = \<lparr> mixture_idx = 1, eps = (\<lambda>j. if j = 0 then a else b) \<rparr>"

text \<open>
  A draw of the simulator: the first row takes the first mixture component, every other
  row the second; all noise is \<open>1\<close>.
\<close>

definition example_sim_draw :: sim_draw where
  "example_sim_draw = \<lparr> sim_idx = (\<lambda>i. if i = 0 then 0 else 1), sim_eps = (\<lambda>i j. 1) \<rparr>"

section \<open>Properties of the rejection loop\<close>

subsection \<open>Which errors can arise\<close>

lemma loop_body_no_assertion: "loop_body t obs d s \<noteq> Inl AssertionError"
  by (auto simp: loop_body_def prior_log_prob_def broadcast2_def is_duplicate_def torch_cat_def
      Let_def split: sum.splits if_splits)

lemma rejection_loop_no_assertion:
  "rejection_loop t n obs ds s \<noteq> Some (Inl AssertionError)"
proof (induction ds arbitrary: s)
  case Nil
  show ?case by simp
next
  case (Cons d ds)
  show ?case
    using Cons.IH loop_body_no_assertion [of t obs d s]
    by (cases "loop_body t obs d s") auto
qed

lemma finish_no_assertion: "finish n s \<noteq> Inl AssertionError"
  by (auto simp: finish_def torch_cat_def)

lemma rejection_loop_invariant:
  assumes "rejection_loop t n obs ds s = Some (Inr s')"
    and "P s"
    and "\<And>d s0 s1. P s0 \<Longrightarrow> loop_body t obs d s0 = Inr s1 \<Longrightarrow> P s1"
  shows "P s'"
  using assms(1,2)
proof (induction ds arbitrary: s)
  case Nil
  then show ?case by (simp split: if_splits)
next
  case (Cons d ds)
  show ?case
  proof (cases "int (length (reference_posterior_samples s)) < n")
    case True
    with Cons.prems(1) obtain s1 where b: "loop_body t obs d s = Inr s1"
      and r: "rejection_loop t n obs ds s1 = Some (Inr s')"
      by (cases "loop_body t obs d s") auto
    from assms(3) [OF Cons.prems(2) b] have "P s1" .
    with Cons.IH r show ?thesis by blast
  next
    case False
    with Cons.prems show ?thesis by simp
  qed
qed

lemma rejection_loop_exit:
  "rejection_loop t n obs ds s = Some (Inr s') \<Longrightarrow>
   \<not> int (length (reference_posterior_samples s')) < n"
proof (induction ds arbitrary: s)
  case Nil
  then show ?case by (simp split: if_splits)
next
  case (Cons d ds)
  then show ?case
    by (cases "loop_body t obs d s") (auto split: if_splits)
qed

text \<open>A result, once reached, does not depend on the draws supplied beyond those taken.\<close>

lemma rejection_loop_append:
  "rejection_loop t n obs ds s = Some res \<Longrightarrow> rejection_loop t n obs (ds @ ds') s = Some res"
proof (induction ds arbitrary: s)
  case Nil
  then show ?case by (cases ds') (auto split: if_splits)
next
  case (Cons d ds)
  then show ?case by (cases "loop_body t obs d s") (auto split: if_splits)
qed

subsection \<open>What one iteration does\<close>

lemma length_normal_rsample: "length (normal_rsample loc scale e j) = length loc"
  by (induction loc arbitrary: j) auto

lemma loop_body_counter:
  "loop_body t obs d s = Inr s' \<Longrightarrow> counter s' = Suc (counter s)"
  by (auto simp: loop_body_def Let_def split: sum.splits if_splits)

lemma loop_body_sites:
  "loop_body t obs d s = Inr s' \<Longrightarrow>
   sites s' = sites s @ [(''mixture_idx'', Categorical (mixture_weights t)),
                         (''posterior_sample'', posterior_dist t obs (mixture_idx d))]"
  by (auto simp: loop_body_def Let_def split: sum.splits if_splits)

lemma loop_body_samples:
  "loop_body t obs d s = Inr s' \<Longrightarrow>
   reference_posterior_samples s' = reference_posterior_samples s \<or>
   reference_posterior_samples s' =
     reference_posterior_samples s @ [posterior_sample t obs d]"
  by (auto simp: loop_body_def Let_def split: sum.splits if_splits)

lemma loop_body_length:
  assumes "loop_body t obs d s = Inr s'"
  shows "length (reference_posterior_samples s') \<le> Suc (length (reference_posterior_samples s))"
  using loop_body_samples [OF assms] by auto

lemma rejection_loop_upper:
  "rejection_loop t n obs ds s = Some (Inr s') \<Longrightarrow>
   int (length (reference_posterior_samples s)) \<le> n \<Longrightarrow>
   int (length (reference_posterior_samples s')) \<le> n"
proof (induction ds arbitrary: s)
  case Nil
  then show ?case by (simp split: if_splits)
next
  case (Cons d ds)
  show ?case
  proof (cases "int (length (reference_posterior_samples s)) < n")
    case True
    with Cons.prems(1) obtain s1 where b: "loop_body t obs d s = Inr s1"
      and r: "rejection_loop t n obs ds s1 = Some (Inr s')"
      by (cases "loop_body t obs d s") auto
    from loop_body_length [OF b] True
    have "int (length (reference_posterior_samples s1)) \<le> n" by linarith
    with Cons.IH r show ?thesis by blast
  next
    case False
    with Cons.prems show ?thesis by simp
  qed
qed

lemma rejection_loop_trace:
  "rejection_loop t n obs ds s = Some (Inr s') \<Longrightarrow>
   \<exists>k \<le> length ds. counter s' = counter s + k \<and>
     sites s' = sites s @ concat (map (\<lambda>d. [(''mixture_idx'', Categorical (mixture_weights t)),
                         (''posterior_sample'', posterior_dist t obs (mixture_idx d))]) (take k ds))"
proof (induction ds arbitrary: s)
  case Nil
  then show ?case by (simp split: if_splits)
next
  case (Cons d ds)
  show ?case
  proof (cases "int (length (reference_posterior_samples s)) < n")
    case True
    with Cons.prems(1) obtain s1 where b: "loop_body t obs d s = Inr s1"
      and r: "rejection_loop t n obs ds s1 = Some (Inr s')"
      by (cases "loop_body t obs d s") auto
    from Cons.IH [OF r] obtain k where k: "k \<le> length ds" "counter s' = counter s1 + k"
      "sites s' = sites s1 @ concat (map (\<lambda>d. [(''mixture_idx'', Categorical (mixture_weights t)),
                         (''posterior_sample'', posterior_dist t obs (mixture_idx d))]) (take k ds))"
      by blast
    show ?thesis
      using k loop_body_counter [OF b] loop_body_sites [OF b]
      by (intro exI [of _ "Suc k"]) simp
  next
    case False
    with Cons.prems have "s' = s" by simp
    then show ?thesis by (intro exI [of _ 0]) simp
  qed
qed

lemma finish_Inr:
  "finish n s = Inr r \<Longrightarrow>
   returned r = reference_posterior_samples s \<and> reference_posterior_samples s \<noteq> [] \<and>
   attempts r = counter s \<and> counter s \<noteq> 0 \<and> visited r = sites s \<and>
   acceptance_rate r = real_of_int n / real (counter s)"
  by (auto simp: finish_def torch_cat_def split: if_splits)

lemma sample_reference_posterior_Inr:
  assumes "sample_reference_posterior g t n num_observation observation ds = Some (Inr r)"
  obtains obs s where "resolve_observation g num_observation observation = Inr obs"
    and "rejection_loop t n obs ds init_state = Some (Inr s)"
    and "finish n s = Inr r"
  using assms
  by (auto simp: sample_reference_posterior_def split: sum.splits option.splits)

lemma loop_body_le_counter:
  assumes "loop_body t obs d s = Inr s'"
    and "length (reference_posterior_samples s) \<le> counter s"
  shows "length (reference_posterior_samples s') \<le> counter s'"
  using loop_body_length [OF assms(1)] loop_body_counter [OF assms(1)] assms(2) by simp

lemma rejection_loop_nonempty:
  assumes "rejection_loop t n obs ds init_state = Some (Inr s)"
    and "reference_posterior_samples s \<noteq> []"
  shows "int (length (reference_posterior_samples s)) = n"
proof -
  have ge: "n \<le> int (length (reference_posterior_samples s))"
    using rejection_loop_exit [OF assms(1)] by simp
  have pos: "1 \<le> n"
  proof (rule ccontr)
    assume "\<not> 1 \<le> n"
    then have "rejection_loop t n obs ds init_state = Some (Inr init_state)"
      by (cases ds) (simp_all add: init_state_def)
    with assms show False by (simp add: init_state_def)
  qed
  have "int (length (reference_posterior_samples s)) \<le> n"
    using rejection_loop_upper [OF assms(1)] pos by (simp add: init_state_def)
  with ge show ?thesis by simp
qed

subsection \<open>A run on concrete draws\<close>

lemmas eval_simps = sample_reference_posterior_def finish_def torch_cat_def init_state_def
  loop_body_def posterior_dist_def posterior_sample_def is_duplicate_def prior_log_prob_def broadcast2_def GaussianMixture_def
  torch_ones_def uniform_log_prob_def torch_log_def torch_sum_def fl_sub_def tensor_contains_def
  example_draw_def Let_def

lemma prior_log_prob_example:
  "prior_log_prob (GaussianMixture 2 10) [1, 2] = Inr (Fin (- ln 20 - ln 20))"
  by (simp add: eval_simps numeral_2_eq_2)

lemma example_run:
  "sample_reference_posterior g (GaussianMixture 2 10) 2 None (Some [0, 0])
     [example_draw 1 2, example_draw 1 3, example_draw 5 6]
   = Some (Inr \<lparr> returned = [[1, 2], [5, 6]], acceptance_rate = 2 / 3, attempts = 3,
        visited = [(''mixture_idx'', Categorical [1/2, 1/2]), (''posterior_sample'', Normal [0, 0] 1),
                   (''mixture_idx'', Categorical [1/2, 1/2]), (''posterior_sample'', Normal [0, 0] 1),
                   (''mixture_idx'', Categorical [1/2, 1/2]), (''posterior_sample'', Normal [0, 0] 1)] \<rparr>)"
  by (simp add: eval_simps numeral_2_eq_2)

subsection \<open>The prior log-probability of a candidate\<close>








lemma loop_body_accept:
  assumes "loop_body t obs d s = Inr s'"
    and "reference_posterior_samples s' \<noteq> reference_posterior_samples s"
  shows "\<exists>lp. prior_log_prob t (posterior_sample t obs d) = Inr lp \<and>
           \<not> torch_isinf lp \<and>
           \<not> tensor_contains (reference_posterior_samples s)
               (posterior_sample t obs d) \<and>
           reference_posterior_samples s' = reference_posterior_samples s @
             [posterior_sample t obs d]"
  using assms
  by (auto simp: loop_body_def Let_def is_duplicate_def torch_cat_def tensor_contains_def
      split: sum.splits if_splits)

subsection \<open>The duplicate test\<close>

text \<open>
  A candidate with at least one coordinate that is among the accepted samples is flagged
  by the test, so the rows returned are pairwise distinct.
\<close>

lemma tensor_contains_member:
  assumes "x \<noteq> []" and "x \<in> set rows"
  shows "tensor_contains rows x"
proof -
  from assms(1) obtain a xs where "x = a # xs" by (cases x) auto
  then have "list_ex (\<lambda>(a, b). a = b) (zip x x)" by simp
  with assms(2) show ?thesis
    by (auto simp: tensor_contains_def list_ex_iff)
qed

lemma accepted_pairwise_distinct:
  assumes "sample_reference_posterior get_observation t num_samples num_observation observation ds
             = Some (Inr r)"
    and "resolve_observation get_observation num_observation observation = Inr obs"
    and "obs \<noteq> []"
  shows "distinct (returned r)"
proof -
  from assms(1,2) obtain s where
    loop: "rejection_loop t num_samples obs ds init_state = Some (Inr s)"
    and fin: "finish num_samples s = Inr r"
    by (auto elim!: sample_reference_posterior_Inr)
  have "distinct (reference_posterior_samples s)"
  proof (rule rejection_loop_invariant [OF loop])
    show "distinct (reference_posterior_samples init_state)"
      by (simp add: init_state_def)
  next
    fix d s0 s1
    assume inv: "distinct (reference_posterior_samples s0)"
      and b: "loop_body t obs d s0 = Inr s1"
    show "distinct (reference_posterior_samples s1)"
    proof (cases "reference_posterior_samples s1 = reference_posterior_samples s0")
      case True
      with inv show ?thesis by simp
    next
      case False
      from loop_body_accept [OF b False]
      have nc: "\<not> tensor_contains (reference_posterior_samples s0) (posterior_sample t obs d)"
        and app: "reference_posterior_samples s1 =
                    reference_posterior_samples s0 @ [posterior_sample t obs d]"
        by blast+
      have "posterior_sample t obs d \<noteq> []"
        using assms(3) length_normal_rsample [of "map (\<lambda>x. mixture_locs_factor t ! mixture_idx d * x) obs"
            "mixture_scales t ! mixture_idx d" "eps d" 0]
        by (auto simp: posterior_sample_def)
      with nc tensor_contains_member
      have "posterior_sample t obs d \<notin> set (reference_posterior_samples s0)" by blast
      with inv app show ?thesis by simp
    qed
  qed
  with finish_Inr [OF fin] show ?thesis by simp
qed

subsection \<open>Sampling from the prior\<close>



subsection \<open>The rows of the simulator\<close>

lemma simulator_rows_shape:
  assumes "\<forall>i < length rows. sim_idx d (j + i) < length (mixture_locs_factor t) \<and>
                              sim_idx d (j + i) < length (mixture_scales t)"
  shows "\<exists>out. simulator_rows t d j rows = Inr out \<and> map length out = map length rows"
  using assms
proof (induction rows arbitrary: j)
  case Nil
  show ?case by simp
next
  case (Cons row rows)
  have "\<forall>i < length rows. sim_idx d (Suc j + i) < length (mixture_locs_factor t) \<and>
                             sim_idx d (Suc j + i) < length (mixture_scales t)"
  proof (intro allI impI)
    fix i assume "i < length rows"
    then have "Suc i < length (row # rows)" by simp
    from Cons.prems [rule_format, OF this]
    show "sim_idx d (Suc j + i) < length (mixture_locs_factor t) \<and>
          sim_idx d (Suc j + i) < length (mixture_scales t)" by simp
  qed
  from Cons.IH [OF this] obtain out where
    out: "simulator_rows t d (Suc j) rows = Inr out" "map length out = map length rows"
    by blast
  from Cons.prems [rule_format, of 0]
  have "sim_idx d j < length (mixture_locs_factor t) \<and> sim_idx d j < length (mixture_scales t)"
    by simp
  with out show ?case by (simp add: length_normal_rsample Let_def)
qed

subsection \<open>The candidate of an iteration\<close>

text \<open>
  The candidate, coordinate by coordinate: the mean \<open>mixture_locs_factor[idx] * observation\<close>
  plus the noise times the scale \<open>mixture_scales[idx]\<close>. Every accepted sample is the
  candidate of one of the draws.
\<close>

lemma normal_rsample_map:
  "normal_rsample loc scale e j = map (\<lambda>i. loc ! i + e (j + i) * scale) [0..<length loc]"
proof (induction loc arbitrary: j)
  case Nil
  show ?case by simp
next
  case (Cons l loc)
  have "[0..<length (l # loc)] = 0 # map Suc [0..<length loc]"
    by (simp add: upt_conv_Cons map_Suc_upt del: upt_Suc)
  then show ?case by (simp add: Cons.IH comp_def del: upt_Suc)
qed

lemma posterior_sample_formula:
  "posterior_sample t obs d =
     map (\<lambda>j. mixture_locs_factor t ! mixture_idx d * obs ! j +
                eps d j * mixture_scales t ! mixture_idx d) [0..<length obs]"
  by (simp add: posterior_sample_def normal_rsample_map)

lemma rejection_loop_candidates:
  "rejection_loop t n obs ds s = Some (Inr s') \<Longrightarrow>
   set (reference_posterior_samples s') \<subseteq>
     set (reference_posterior_samples s) \<union> posterior_sample t obs ` set ds"
proof (induction ds arbitrary: s)
  case Nil
  then show ?case by (simp split: if_splits)
next
  case (Cons d ds)
  show ?case
  proof (cases "int (length (reference_posterior_samples s)) < n")
    case True
    with Cons.prems obtain s1 where b: "loop_body t obs d s = Inr s1"
      and r: "rejection_loop t n obs ds s1 = Some (Inr s')"
      by (cases "loop_body t obs d s") auto
    from loop_body_samples [OF b]
    have "set (reference_posterior_samples s1) \<subseteq>
            set (reference_posterior_samples s) \<union> {posterior_sample t obs d}"
      by auto
    with Cons.IH [OF r] show ?thesis by auto
  next
    case False
    with Cons.prems show ?thesis by auto
  qed
qed

subsection \<open>The prior, for any bound\<close>


subsection \<open>More runs on concrete draws\<close>



lemma example_run_second:
  "sample_reference_posterior g (GaussianMixture 2 10) 1 None (Some [3, 4])
     [example_draw_second 1 2]
   = Some (Inr \<lparr> returned = [[31 / 10, 21 / 5]], acceptance_rate = 1, attempts = 1,
        visited = [(''mixture_idx'', Categorical [1/2, 1/2]),
                   (''posterior_sample'', Normal [3, 4] (1 / 10))] \<rparr>)"
  by (simp add: eval_simps example_draw_second_def numeral_2_eq_2)

section \<open>The claims\<close>

text \<open>
  C1. A call of the reference-posterior routine with both \<open>num_observation\<close> and
  \<open>observation\<close>, or with neither, fails with an assertion error whatever the draws
  supplied, so before anything is sampled; a call with exactly one of the two does not end
  in an assertion error.
\<close>

theorem assertion_contract:
  "((num_observation = None) = (observation = None) \<longrightarrow>
      (\<forall>ds. sample_reference_posterior get_observation t num_samples num_observation observation ds
              = Some (Inl AssertionError))) \<and>
   ((num_observation = None) \<noteq> (observation = None) \<longrightarrow>
      (\<forall>ds. sample_reference_posterior get_observation t num_samples num_observation observation ds
              \<noteq> Some (Inl AssertionError)))"
proof (cases num_observation; cases observation)
  fix obs assume "num_observation = None" "observation = Some obs"
  then show ?thesis
    using rejection_loop_no_assertion [of t num_samples obs] finish_no_assertion [of num_samples]
    by (auto simp: sample_reference_posterior_def split: option.splits sum.splits)
next
  fix k assume "num_observation = Some k" "observation = None"
  then show ?thesis
    using rejection_loop_no_assertion [of t num_samples "get_observation k"]
      finish_no_assertion [of num_samples]
    by (auto simp: sample_reference_posterior_def split: option.splits sum.splits)
qed (simp_all add: sample_reference_posterior_def)

theorem assertion_contract_witness:
  "sample_reference_posterior (\<lambda>_. [0, 0]) (GaussianMixture 2 10) 1 (Some 1) (Some [0, 0]) []
     = Some (Inl AssertionError) \<and>
   sample_reference_posterior (\<lambda>_. [0, 0]) (GaussianMixture 2 10) 1 None None []
     = Some (Inl AssertionError) \<and>
   sample_reference_posterior (\<lambda>_. [0, 0]) (GaussianMixture 2 10) 1 None (Some [0, 0]) []
     \<noteq> Some (Inl AssertionError)"
  using assertion_contract [of "Some 1" "Some [0, 0]" "\<lambda>_. [0, 0]" "GaussianMixture 2 10" 1]
    assertion_contract [of None None "\<lambda>_. [0, 0]" "GaussianMixture 2 10" 1]
    assertion_contract [of None "Some [0, 0]" "\<lambda>_. [0, 0]" "GaussianMixture 2 10" 1]
  by simp

text \<open>
  C2. For an observation of shape \<open>(1, dim)\<close>, a call of the reference-posterior routine
  that returns, returns exactly \<open>num_samples\<close> rows, each of \<open>dim\<close> entries; and a call
  returns only when \<open>num_samples\<close> is at least one.
\<close>

theorem returns_exactly_num_samples:
  assumes "sample_reference_posterior get_observation (GaussianMixture dim' prior_bound)
             num_samples num_observation observation ds = Some (Inr r)"
    and "resolve_observation get_observation num_observation observation = Inr obs"
    and "length obs = dim'"
  shows "int (length (returned r)) = num_samples \<and> 1 \<le> num_samples \<and>
         (\<forall>row \<in> set (returned r). length row = dim')"
proof -
  let ?t = "GaussianMixture dim' prior_bound"
  from assms(1,2) obtain s where
    loop: "rejection_loop ?t num_samples obs ds init_state = Some (Inr s)"
    and fin: "finish num_samples s = Inr r"
    by (auto elim!: sample_reference_posterior_Inr)
  from finish_Inr [OF fin] have ret: "returned r = reference_posterior_samples s"
    and ne: "reference_posterior_samples s \<noteq> []" by simp_all
  have n: "int (length (reference_posterior_samples s)) = num_samples"
    by (rule rejection_loop_nonempty [OF loop ne])
  have pos: "1 \<le> num_samples"
    using n ne by (cases "reference_posterior_samples s") auto
  have rows: "\<forall>row \<in> set (reference_posterior_samples s). length row = dim'"
  proof (rule rejection_loop_invariant [OF loop])
    show "\<forall>row \<in> set (reference_posterior_samples init_state). length row = dim'"
      by (simp add: init_state_def)
  next
    fix d s0 s1
    assume inv: "\<forall>row \<in> set (reference_posterior_samples s0). length row = dim'"
      and b: "loop_body ?t obs d s0 = Inr s1"
    have "length (posterior_sample ?t obs d) = dim'"
      using assms(3) by (simp add: posterior_sample_def length_normal_rsample)
    with inv loop_body_samples [OF b]
    show "\<forall>row \<in> set (reference_posterior_samples s1). length row = dim'"
      by auto
  qed
  from n pos rows ret show ?thesis by simp
qed

theorem returns_exactly_num_samples_witness:
  "\<exists>r. sample_reference_posterior (\<lambda>_. []) (GaussianMixture 2 10) 2 None (Some [0, 0])
          [example_draw 1 2, example_draw 1 3, example_draw 5 6] = Some (Inr r) \<and>
       resolve_observation (\<lambda>_. []) None (Some [0, 0]) = Inr [0, 0] \<and>
       length [0 :: real, 0] = 2 \<and>
       int (length (returned r)) = 2 \<and> map length (returned r) = [2, 2]"
proof -
  have res: "resolve_observation (\<lambda>_. []) None (Some [0, 0 :: real]) = Inr [0, 0]" by simp
  have len: "length [0 :: real, 0] = 2" by simp
  from returns_exactly_num_samples [OF example_run res len] example_run res
  show ?thesis by simp
qed




text \<open>
  C4. The duplicate test of the rejection loop, at a candidate that shares one coordinate
  with an accepted sample: with \<open>[1, 2]\<close> accepted, the candidate \<open>[1, 3]\<close> is not among the
  accepted samples and lies inside the prior, yet the iteration does not append it, and a
  call for two samples is still looping after these two draws.
\<close>

theorem duplicate_check_entrywise:
  "[1, 3] \<notin> set [[1, 2 :: real]] \<and>
   prior_log_prob (GaussianMixture 2 10) [1, 3] = Inr (Fin (- ln 20 - ln 20)) \<and>
   loop_body (GaussianMixture 2 10) [0, 0] (example_draw 1 3)
     \<lparr> counter = 1, reference_posterior_samples = [[1, 2]], sites = [] \<rparr>
   = Inr \<lparr> counter = 2, reference_posterior_samples = [[1, 2]],
           sites = [(''mixture_idx'', Categorical [1 / 2, 1 / 2]),
                    (''posterior_sample'', Normal [0, 0] 1)] \<rparr> \<and>
   sample_reference_posterior (\<lambda>_. []) (GaussianMixture 2 10) 2 None (Some [0, 0])
     [example_draw 1 2, example_draw 1 3] = None"
  by (simp add: eval_simps numeral_2_eq_2)

text \<open>
  C5. When the reference-posterior routine returns, the acceptance rate it logs is
  \<open>num_samples\<close> divided by the final value of \<open>counter\<close>, which counts the iterations of
  the loop (each iteration visits two sample sites and takes one draw); \<open>num_samples\<close> is
  the number of rows accepted, at most one per iteration, so the rate is
  accepted over attempts and at most one.
\<close>

theorem acceptance_rate_exact:
  assumes "sample_reference_posterior get_observation t num_samples num_observation observation ds
             = Some (Inr r)"
  shows "acceptance_rate r = real_of_int num_samples / real (attempts r) \<and>
         num_samples = int (length (returned r)) \<and>
         acceptance_rate r = real (length (returned r)) / real (attempts r) \<and>
         length (visited r) = 2 * attempts r \<and>
         attempts r \<le> length ds \<and>
         length (returned r) \<le> attempts r \<and>
         0 < attempts r \<and>
         acceptance_rate r \<le> 1"
proof -
  from assms obtain obs s where
    loop: "rejection_loop t num_samples obs ds init_state = Some (Inr s)"
    and fin: "finish num_samples s = Inr r"
    by (auto elim!: sample_reference_posterior_Inr)
  note f = finish_Inr [OF fin]
  have n: "int (length (reference_posterior_samples s)) = num_samples"
    using rejection_loop_nonempty [OF loop] f by simp
  have le: "length (reference_posterior_samples s) \<le> counter s"
    by (rule rejection_loop_invariant [OF loop])
      (simp_all add: init_state_def loop_body_le_counter)
  from rejection_loop_trace [OF loop] obtain k where k: "k \<le> length ds" "counter s = k"
    "length (sites s) = 2 * k"
    by (auto simp: init_state_def length_concat comp_def sum_list_triv)
  have rate: "acceptance_rate r = real (length (returned r)) / real (attempts r)"
    using f n by (metis of_int_of_nat_eq)
  have "real (length (returned r)) / real (attempts r) \<le> 1"
    using f le by simp
  with rate f n le k show ?thesis by simp
qed

theorem acceptance_rate_exact_witness:
  "\<exists>r. sample_reference_posterior (\<lambda>_. []) (GaussianMixture 2 10) 2 None (Some [0, 0])
          [example_draw 1 2, example_draw 1 3, example_draw 5 6] = Some (Inr r) \<and>
       acceptance_rate r = 2 / 3 \<and> attempts r = 3 \<and> length (returned r) = 2"
  using acceptance_rate_exact [OF example_run [of "\<lambda>_. []"]] example_run [of "\<lambda>_. []"]
  by simp




text \<open>
  C7. For every batch of parameter vectors and every draw of mixture indices (each below
  two, the number of components), the simulator returns a tensor with as many rows as the
  batch, each row as long as the parameter row it comes from.
\<close>

theorem simulator_preserves_shape:
  assumes "\<forall>i < length rows. sim_idx d i < 2"
  shows "\<exists>out. simulator (GaussianMixture dim' prior_bound) (Mat rows) d = Inr (Mat out) \<and>
           length out = length rows \<and>
           (\<forall>i < length rows. length (out ! i) = length (rows ! i))"
proof -
  let ?t = "GaussianMixture dim' prior_bound"
  have "\<forall>i < length rows. sim_idx d (0 + i) < length (mixture_locs_factor ?t) \<and>
                             sim_idx d (0 + i) < length (mixture_scales ?t)"
    using assms by (simp add: GaussianMixture_def numeral_2_eq_2)
  from simulator_rows_shape [OF this] obtain out where
    out: "simulator_rows ?t d 0 rows = Inr out" and len: "map length out = map length rows"
    by blast
  from len have l: "length out = length rows" by (rule map_eq_imp_length_eq)
  have "\<forall>i < length rows. length (out ! i) = length (rows ! i)"
  proof (intro allI impI)
    fix i assume i: "i < length rows"
    then have "map length out ! i = length (out ! i)" and "map length rows ! i = length (rows ! i)"
      using l by simp_all
    with len show "length (out ! i) = length (rows ! i)" by simp
  qed
  with out l show ?thesis by (simp add: simulator_def)
qed

theorem simulator_preserves_shape_witness:
  "simulator (GaussianMixture 2 10) (Mat [[1, 2], [3, 4]]) example_sim_draw
     = Inr (Mat [[2, 3], [31 / 10, 41 / 10]])"
proof -
  have h: "\<forall>i < length [[1, 2], [3, 4 :: real]]. sim_idx example_sim_draw i < 2"
    by (simp add: example_sim_draw_def)
  from simulator_preserves_shape [OF h, of 2 10]
  show ?thesis
    by (simp add: simulator_def GaussianMixture_def example_sim_draw_def)
qed

text \<open>
  C8. Every iteration of the rejection loop visits two sample sites, in this order: the
  mixture index, drawn from the Categorical over the mixture weights of the task (the
  observation does not enter), then the candidate, drawn from the Normal with mean
  \<open>mixture_locs_factor[idx] * observation\<close> and scale \<open>mixture_scales[idx]\<close>. The candidate
  is the sample of that Normal: coordinate \<open>j\<close> of it is
  \<open>mixture_locs_factor[idx] * observation[j] + eps[j] * mixture_scales[idx]\<close> for the
  standard-normal noise \<open>eps\<close> of the draw, and an iteration appends nothing else. The sites
  of a call that returns are these pairs, one for each draw taken, and every row returned
  is the candidate of one of the draws.
\<close>

theorem sample_sites_per_iteration:
  "(\<forall>s s'. loop_body t obs d s = Inr s' \<longrightarrow>
      sites s' = sites s @
        [(''mixture_idx'', Categorical (mixture_weights t)),
         (''posterior_sample'',
          Normal (map (\<lambda>x. mixture_locs_factor t ! mixture_idx d * x) obs)
            (mixture_scales t ! mixture_idx d))] \<and>
      (reference_posterior_samples s' = reference_posterior_samples s \<or>
       reference_posterior_samples s' = reference_posterior_samples s @
         [map (\<lambda>j. mixture_locs_factor t ! mixture_idx d * obs ! j +
                    eps d j * mixture_scales t ! mixture_idx d) [0..<length obs]])) \<and>
   (\<forall>r. sample_reference_posterior get_observation t num_samples None (Some obs) ds = Some (Inr r)
      \<longrightarrow>
      visited r = concat (map (\<lambda>d.
        [(''mixture_idx'', Categorical (mixture_weights t)),
         (''posterior_sample'',
          Normal (map (\<lambda>x. mixture_locs_factor t ! mixture_idx d * x) obs)
            (mixture_scales t ! mixture_idx d))]) (take (attempts r) ds)) \<and>
      (\<forall>x \<in> set (returned r). \<exists>d \<in> set ds.
         x = map (\<lambda>j. mixture_locs_factor t ! mixture_idx d * obs ! j +
                       eps d j * mixture_scales t ! mixture_idx d) [0..<length obs]))"
proof (intro conjI allI impI)
  fix s s' assume b: "loop_body t obs d s = Inr s'"
  from loop_body_sites [OF b]
  show "sites s' = sites s @
        [(''mixture_idx'', Categorical (mixture_weights t)),
         (''posterior_sample'',
          Normal (map (\<lambda>x. mixture_locs_factor t ! mixture_idx d * x) obs)
            (mixture_scales t ! mixture_idx d))]"
    by (simp add: posterior_dist_def)
  from loop_body_samples [OF b]
  show "reference_posterior_samples s' = reference_posterior_samples s \<or>
       reference_posterior_samples s' = reference_posterior_samples s @
         [map (\<lambda>j. mixture_locs_factor t ! mixture_idx d * obs ! j +
                    eps d j * mixture_scales t ! mixture_idx d) [0..<length obs]]"
    by (simp only: posterior_sample_formula)
next
  fix r
  assume "sample_reference_posterior get_observation t num_samples None (Some obs) ds = Some (Inr r)"
  then obtain s where
    loop: "rejection_loop t num_samples obs ds init_state = Some (Inr s)"
    and fin: "finish num_samples s = Inr r"
    by (auto elim!: sample_reference_posterior_Inr)
  from rejection_loop_trace [OF loop] finish_Inr [OF fin]
  show "visited r = concat (map (\<lambda>d.
        [(''mixture_idx'', Categorical (mixture_weights t)),
         (''posterior_sample'',
          Normal (map (\<lambda>x. mixture_locs_factor t ! mixture_idx d * x) obs)
            (mixture_scales t ! mixture_idx d))]) (take (attempts r) ds))"
    by (auto simp: init_state_def posterior_dist_def)
  have "set (returned r) \<subseteq> posterior_sample t obs ` set ds"
    using rejection_loop_candidates [OF loop] finish_Inr [OF fin]
    by (simp add: init_state_def)
  then show "\<forall>x \<in> set (returned r). \<exists>d \<in> set ds.
         x = map (\<lambda>j. mixture_locs_factor t ! mixture_idx d * obs ! j +
                       eps d j * mixture_scales t ! mixture_idx d) [0..<length obs]"
    by (auto simp: posterior_sample_formula)
qed

theorem sample_sites_per_iteration_witness:
  "\<exists>r. sample_reference_posterior (\<lambda>_. []) (GaussianMixture 2 10) 1 None (Some [3, 4])
          [example_draw_second 1 2] = Some (Inr r) \<and>
       visited r = [(''mixture_idx'', Categorical [1 / 2, 1 / 2]),
                    (''posterior_sample'', Normal [1 * 3, 1 * 4] (1 / 10))] \<and>
       returned r = [[1 * 3 + 1 * (1 / 10), 1 * 4 + 2 * (1 / 10)]]"
proof -
  note run = example_run_second [of "\<lambda>_. []"]
  from sample_sites_per_iteration
    [of "GaussianMixture 2 10" "[3, 4]" "example_draw_second 1 2" "\<lambda>_. []" 1
       "[example_draw_second 1 2]"] run
  show ?thesis by simp
qed

text \<open>
  C9. With \<open>num_samples = 0\<close> and a valid observation argument the routine returns no
  sample set: the loop body never runs, \<open>counter\<close> stays \<open>0\<close>, and the call ends in an
  error. The error is the one of \<^verbatim>\<open>torch.cat\<close> on the empty list of accepted samples;
  the division of the acceptance rate is not reached, so the error is not a division by
  zero.
\<close>

theorem zero_samples_raises:
  assumes "resolve_observation get_observation num_observation observation = Inr obs"
  shows "sample_reference_posterior get_observation t 0 num_observation observation ds
           = Some (Inl RuntimeError) \<and>
         rejection_loop t 0 obs ds init_state = Some (Inr init_state) \<and>
         counter init_state = 0 \<and>
         torch_cat (reference_posterior_samples init_state) = Inl RuntimeError"
proof -
  have loop: "rejection_loop t 0 obs ds init_state = Some (Inr init_state)"
    by (cases ds) (simp_all add: init_state_def)
  with assms show ?thesis
    by (simp add: sample_reference_posterior_def finish_def torch_cat_def init_state_def)
qed

theorem zero_samples_raises_witness:
  "resolve_observation (\<lambda>_. []) None (Some [0, 0]) = Inr [0, 0] \<and>
   sample_reference_posterior (\<lambda>_. []) (GaussianMixture 2 10) 0 None (Some [0, 0])
     [example_draw 1 2] = Some (Inl RuntimeError)"
proof -
  have res: "resolve_observation (\<lambda>_. []) None (Some [0, 0 :: real]) = Inr [0, 0]" by simp
  from zero_samples_raises [OF res, of "GaussianMixture 2 10" "[example_draw 1 2]"] res
  show ?thesis by simp
qed

text \<open>
  The claim as it is written fails at a concrete call: the error is not the division by
  zero.
\<close>

theorem zero_samples_counterexample:
  "sample_reference_posterior (\<lambda>_. []) (GaussianMixture 2 10) 0 None (Some [0, 0]) []
     \<noteq> Some (Inl ZeroDivisionError)"
  by (simp add: eval_simps)

text \<open>
  C10. The simulator takes a single parameter vector of shape \<open>(d,)\<close>: it is promoted to a
  batch of one row, and the result has shape \<open>(1, d)\<close>, one dimension more than the input.
\<close>

theorem simulator_promotes_vector:
  assumes "sim_idx d 0 < 2"
  shows "\<exists>row. simulator (GaussianMixture dim' prior_bound) (Vec v) d = Inr (Mat [row]) \<and>
           length row = length v \<and>
           ndim (Mat [row]) = ndim (Vec v) + 1"
proof -
  let ?t = "GaussianMixture dim' prior_bound"
  from assms have "sim_idx d 0 < length (mixture_locs_factor ?t) \<and>
                   sim_idx d 0 < length (mixture_scales ?t)"
    by (simp add: GaussianMixture_def)
  then show ?thesis by (simp add: simulator_def length_normal_rsample Let_def)
qed

theorem simulator_promotes_vector_witness:
  "sim_idx example_sim_draw 0 < 2 \<and>
   simulator (GaussianMixture 2 10) (Vec [1, 2]) example_sim_draw = Inr (Mat [[2, 3]]) \<and>
   ndim (Mat [[2, 3]]) = ndim (Vec [1, 2]) + 1"
proof -
  have h: "sim_idx example_sim_draw 0 < 2" by (simp add: example_sim_draw_def)
  from simulator_promotes_vector [OF h, of 2 10 "[1, 2]"] h
  show ?thesis
    by (simp add: simulator_def GaussianMixture_def example_sim_draw_def)
qed

end
